theory Spec2Isabelle
  imports Complex_Main "HOL-Library.Sublist"
begin

section \<open>The Kubernetes state-metrics processor\<close>

text \<open>
  A shallow embedding of \<^verbatim>\<open>utils/kubernetes/kube_state_processor.py\<close>, class
  \<^verbatim>\<open>KubeStateProcessor\<close>. One call of \<^verbatim>\<open>process\<close> on a freshly constructed
  processor is modelled, as the events it causes and the way it ends. The processor's
  only state is its three fields \<^verbatim>\<open>kube_check\<close>, \<^verbatim>\<open>log\<close> and \<^verbatim>\<open>gauge\<close>, which the
  handlers read and never assign.
\<close>

subsection \<open>Messages\<close>

text \<open>
  The decoded exposition messages: a family has a name and a sequence of samples, a
  sample has a sequence of label pairs and a gauge. The gauge value is a double; it is
  only passed on and tested for truth, and is modelled as a real number (Python's
  \<^verbatim>\<open>bool(x)\<close> of a float is \<^verbatim>\<open>x != 0\<close>; the values that are not numbers are left
  out). Strings are \<^typ>\<open>string\<close>, and \<^verbatim>\<open>'{}'.format(s)\<close> of a string is the string
  itself (in Python 2 that holds for ASCII text, which is what the model's strings are).
\<close>

record LabelPair =
  label_name :: string
  label_value :: string

record Gauge =
  gauge_value :: real

record Metric =
  label :: "LabelPair list"
  gauge :: Gauge

record MetricFamily =
  name :: string
  metric :: "Metric list"

subsection \<open>Keyword arguments\<close>

text \<open>
  The values a keyword argument of \<^verbatim>\<open>process\<close> can hold, as far as the handlers look
  into them: \<^verbatim>\<open>None\<close>, a string, a list, a dictionary with string keys (an association
  list, read with \<^const>\<open>map_of\<close>). The keyword arguments are such a dictionary
  themselves. Its keys are never \<^verbatim>\<open>self\<close> or \<^verbatim>\<open>message\<close>: Python rejects those in
  the call of \<^verbatim>\<open>process\<close> itself.
\<close>

datatype pyval =
    PyNone
  | PyStr string
  | PyList "pyval list"
  | PyDict "(string \<times> pyval) list"

type_synonym kwargs = "(string \<times> pyval) list"

subsection \<open>Observable effects and results\<close>

text \<open>
  Modelled from the spec: the status constants \<^verbatim>\<open>OK\<close>, \<^verbatim>\<open>WARNING\<close>, \<^verbatim>\<open>CRITICAL\<close>
  and \<^verbatim>\<open>UNKNOWN\<close> of the check object, which the source reads as
  \<^verbatim>\<open>self.kube_check.OK\<close> and so on and which are declared outside this file.
\<close>

datatype status = OK | WARNING | CRITICAL | UNKNOWN

text \<open>
  The three calls that leave the processor, in the order they happen:
  \<^verbatim>\<open>self.gauge(name, val, tags)\<close>, \<^verbatim>\<open>self.kube_check.service_check(name, status, tags=tags)\<close>
  and \<^verbatim>\<open>self.log.debug(text)\<close>.
\<close>

datatype event =
    GaugeCall string real "string list"
  | ServiceCheck string status "string list"
  | LogDebug string

datatype py_error = AttributeError | IndexError | TypeError | RuntimeError

text \<open>
  How a call ends: it returns, it raises, or control has gone to code that is not in
  this file (\<open>Outside\<close>: nothing is known about what follows).
\<close>

datatype outcome = Returned | Raised py_error | Outside

type_synonym result = "event list \<times> outcome"

definition skip :: result where
  "skip = ([], Returned)"

definition raise :: "py_error \<Rightarrow> result" where
  "raise e = ([], Raised e)"

definition emit :: "event \<Rightarrow> result" where
  "emit ev = ([ev], Returned)"

text \<open>Two statements in sequence: the second runs only when the first returns.\<close>

definition seq :: "result \<Rightarrow> result \<Rightarrow> result" where
  "seq r1 r2 =
     (case r1 of
        (es, Returned) \<Rightarrow> (case r2 of (es', r) \<Rightarrow> (es @ es', r))
      | (es, r) \<Rightarrow> (es, r))"

text \<open>
  \<^verbatim>\<open>for x in xs: body\<close>, where the body has no \<^verbatim>\<open>break\<close>: a body that raises ends
  the loop, and what was emitted before stands.
\<close>

fun for_each :: "('a \<Rightarrow> result) \<Rightarrow> 'a list \<Rightarrow> result" where
  "for_each body [] = skip"
| "for_each body (x # xs) = seq (body x) (for_each body xs)"

text \<open>\<^verbatim>\<open>'{}'.format(v)\<close> for a value that is a string or \<^verbatim>\<open>None\<close>.\<close>

fun format_str :: "string option \<Rightarrow> string" where
  "format_str None = ''None''"
| "format_str (Some s) = s"

subsection \<open>The shared helpers\<close>

text \<open>
  \<^verbatim>\<open>_eval_metric_condition\<close>: the pair \<^verbatim>\<open>(label.value, val)\<close> of the first label named
  \<^verbatim>\<open>condition\<close>, and \<^verbatim>\<open>(None, None)\<close> when there is none.
\<close>

fun eval_metric_condition_loop :: "bool \<Rightarrow> LabelPair list \<Rightarrow> string option \<times> bool option" where
  "eval_metric_condition_loop val [] = (None, None)"
| "eval_metric_condition_loop val (l # ls) =
     (if label_name l = ''condition'' then (Some (label_value l), Some val)
      else eval_metric_condition_loop val ls)"

definition eval_metric_condition :: "Metric \<Rightarrow> string option \<times> bool option" where
  "eval_metric_condition m =
     (let val = (gauge_value (gauge m) \<noteq> 0)
      in eval_metric_condition_loop val (label m))"

text \<open>\<^verbatim>\<open>_extract_label_value\<close>: the value of the first label with the given name.\<close>

fun extract_label_value :: "string \<Rightarrow> LabelPair list \<Rightarrow> string option" where
  "extract_label_value n [] = None"
| "extract_label_value n (l # ls) =
     (if label_name l = n then Some (label_value l) else extract_label_value n ls)"

text \<open>
  The test \<^verbatim>\<open>name == s and val\<close> of the condition handlers, where \<^verbatim>\<open>val\<close> is a
  boolean or \<^verbatim>\<open>None\<close> (which is false).
\<close>

definition asserted :: "string option \<Rightarrow> bool option \<Rightarrow> string \<Rightarrow> bool" where
  "asserted nm val s = (nm = Some s \<and> val = Some True)"

subsection \<open>Gauge handlers\<close>

type_synonym handler = "MetricFamily \<Rightarrow> kwargs \<Rightarrow> result"

definition kube_node_status_capacity_cpu_cores :: handler where
  "kube_node_status_capacity_cpu_cores message kw =
     (let metric_name = ''kubernetes.node.cpu_capacity'' in
      for_each (\<lambda>m.
        let val = gauge_value (gauge m) in
        case label m of
          [] \<Rightarrow> raise IndexError
        | l # _ \<Rightarrow> emit (GaugeCall metric_name val [''host:'' @ label_value l]))
      (metric message))"

definition kube_node_status_capacity_memory_bytes :: handler where
  "kube_node_status_capacity_memory_bytes message kw =
     (let metric_name = ''kubernetes.node.memory_capacity'' in
      for_each (\<lambda>m.
        let val = gauge_value (gauge m);
            tags = [''host:'' @ format_str (extract_label_value ''node'' (label m))]
        in emit (GaugeCall metric_name val tags))
      (metric message))"

definition kube_node_status_capacity_pods :: handler where
  "kube_node_status_capacity_pods message kw =
     (let metric_name = ''kubernetes.node.pods_capacity'' in
      for_each (\<lambda>m.
        let val = gauge_value (gauge m);
            tags = [''host:'' @ format_str (extract_label_value ''node'' (label m))]
        in emit (GaugeCall metric_name val tags))
      (metric message))"

definition kube_node_status_allocateable_cpu_cores :: handler where
  "kube_node_status_allocateable_cpu_cores message kw =
     (let metric_name = ''kubernetes.node.cpu_allocatable'' in
      for_each (\<lambda>m.
        let val = gauge_value (gauge m);
            tags = [''host:'' @ format_str (extract_label_value ''node'' (label m))]
        in emit (GaugeCall metric_name val tags))
      (metric message))"

definition kube_node_status_allocateable_memory_bytes :: handler where
  "kube_node_status_allocateable_memory_bytes message kw =
     (let metric_name = ''kubernetes.node.memory_allocatable'' in
      for_each (\<lambda>m.
        let val = gauge_value (gauge m);
            tags = [''host:'' @ format_str (extract_label_value ''node'' (label m))]
        in emit (GaugeCall metric_name val tags))
      (metric message))"

definition kube_node_status_allocateable_pods :: handler where
  "kube_node_status_allocateable_pods message kw =
     (let metric_name = ''kubernetes.node.pods_allocatable'' in
      for_each (\<lambda>m.
        let val = gauge_value (gauge m);
            tags = [''host:'' @ format_str (extract_label_value ''node'' (label m))]
        in emit (GaugeCall metric_name val tags))
      (metric message))"

definition kube_deployment_status_replicas_available :: handler where
  "kube_deployment_status_replicas_available message kw =
     (let metric_name = ''kubernetes.deployment.replicas_available'' in
      for_each (\<lambda>m.
        let val = gauge_value (gauge m);
            tags = map (\<lambda>l. label_name l @ '':'' @ label_value l) (label m)
        in emit (GaugeCall metric_name val tags))
      (metric message))"

definition kube_deployment_status_replicas_unavailable :: handler where
  "kube_deployment_status_replicas_unavailable message kw =
     (let metric_name = ''kubernetes.deployment.replicas_unavailable'' in
      for_each (\<lambda>m.
        let val = gauge_value (gauge m);
            tags = map (\<lambda>l. label_name l @ '':'' @ label_value l) (label m)
        in emit (GaugeCall metric_name val tags))
      (metric message))"

definition kube_deployment_status_replicas_updated :: handler where
  "kube_deployment_status_replicas_updated message kw =
     (let metric_name = ''kubernetes.deployment.replicas_updated'' in
      for_each (\<lambda>m.
        let val = gauge_value (gauge m);
            tags = map (\<lambda>l. label_name l @ '':'' @ label_value l) (label m)
        in emit (GaugeCall metric_name val tags))
      (metric message))"

definition kube_deployment_spec_replicas :: handler where
  "kube_deployment_spec_replicas message kw =
     (let metric_name = ''kubernetes.deployment.replicas_desired'' in
      for_each (\<lambda>m.
        let val = gauge_value (gauge m);
            tags = map (\<lambda>l. label_name l @ '':'' @ label_value l) (label m)
        in emit (GaugeCall metric_name val tags))
      (metric message))"

subsection \<open>Condition handlers\<close>

definition kube_node_status_ready :: handler where
  "kube_node_status_ready message kw =
     (let service_check_name = ''kube_node_status_ready'' in
      for_each (\<lambda>m.
        case eval_metric_condition m of (nm, val) \<Rightarrow>
        let tags = [''host:'' @ format_str (extract_label_value ''node'' (label m))] in
        if asserted nm val ''true'' then emit (ServiceCheck service_check_name OK tags)
        else if asserted nm val ''false'' then emit (ServiceCheck service_check_name CRITICAL tags)
        else if asserted nm val ''unknown'' then emit (ServiceCheck service_check_name UNKNOWN tags)
        else skip)
      (metric message))"

definition kube_node_status_out_of_disk :: handler where
  "kube_node_status_out_of_disk message kw =
     (let service_check_name = ''kube_node_status_out_of_disk'' in
      for_each (\<lambda>m.
        case eval_metric_condition m of (nm, val) \<Rightarrow>
        let tags = [''host:'' @ format_str (extract_label_value ''node'' (label m))] in
        if asserted nm val ''true'' then emit (ServiceCheck service_check_name CRITICAL tags)
        else if asserted nm val ''false'' then emit (ServiceCheck service_check_name OK tags)
        else if asserted nm val ''unknown'' then emit (ServiceCheck service_check_name UNKNOWN tags)
        else skip)
      (metric message))"

text \<open>
  \<^verbatim>\<open>kwargs.get('instance', {}).get('status_ready_for_pods')\<close>: the default when the
  key \<^verbatim>\<open>instance\<close> is missing is an empty dictionary, whose \<^verbatim>\<open>get\<close> gives \<^verbatim>\<open>None\<close>;
  a value under \<^verbatim>\<open>instance\<close> that is not a dictionary has no \<^verbatim>\<open>get\<close>.
\<close>

definition kwargs_get_pods :: "kwargs \<Rightarrow> py_error + pyval" where
  "kwargs_get_pods kw =
     (case map_of kw ''instance'' of
        None \<Rightarrow> Inr PyNone
      | Some (PyDict d) \<Rightarrow>
          (case map_of d ''status_ready_for_pods'' of None \<Rightarrow> Inr PyNone | Some v \<Rightarrow> Inr v)
      | Some _ \<Rightarrow> Inl AttributeError)"

text \<open>
  \<^verbatim>\<open>x in c\<close> for \<^verbatim>\<open>x\<close> a string or \<^verbatim>\<open>None\<close>: membership in a list, key membership in a
  dictionary, substring of a string (where \<^verbatim>\<open>None\<close> on the left is a TypeError);
  \<^verbatim>\<open>None\<close> on the right is not iterable.
\<close>

fun py_in :: "string option \<Rightarrow> pyval \<Rightarrow> py_error + bool" where
  "py_in x PyNone = Inl TypeError"
| "py_in None (PyStr s) = Inl TypeError"
| "py_in (Some p) (PyStr s) = Inr (sublist p s)"
| "py_in x (PyList vs) = Inr ((case x of None \<Rightarrow> PyNone | Some p \<Rightarrow> PyStr p) \<in> set vs)"
| "py_in x (PyDict d) = Inr (case x of None \<Rightarrow> False | Some p \<Rightarrow> p \<in> set (map fst d))"

definition kube_pod_status_ready :: handler where
  "kube_pod_status_ready message kw =
     (let service_check_name = ''kube_pod_status_ready'' in
      case kwargs_get_pods kw of
        Inl e \<Rightarrow> raise e
      | Inr PyNone \<Rightarrow>
          emit (LogDebug ''no pods configured, kube_pod_status_ready has nothing to do, returning...'')
      | Inr configured_pods \<Rightarrow>
          for_each (\<lambda>m.
            let pod_name = extract_label_value ''pod'' (label m) in
            case py_in pod_name configured_pods of
              Inl e \<Rightarrow> raise e
            | Inr False \<Rightarrow> skip
            | Inr True \<Rightarrow>
                (case eval_metric_condition m of (nm, val) \<Rightarrow>
                 let tags = [''namespace:'' @ format_str (extract_label_value ''namespace'' (label m)),
                             ''pod:'' @ format_str pod_name] in
                 seq (if asserted nm val ''true''
                      then emit (ServiceCheck service_check_name OK tags) else skip)
                     (if asserted nm val ''false''
                      then emit (ServiceCheck service_check_name CRITICAL tags)
                      else if asserted nm val ''unknown''
                      then emit (ServiceCheck service_check_name UNKNOWN tags) else skip)))
          (metric message))"

text \<open>
  The pod-readiness handler as the spec's design notes describe the alternative: the
  same handler with the symmetric \<^verbatim>\<open>if\<close>/\<^verbatim>\<open>elif\<close>/\<^verbatim>\<open>elif\<close> chain of the
  node-readiness handler in place of the source's \<^verbatim>\<open>if\<close>, \<^verbatim>\<open>if\<close>/\<^verbatim>\<open>elif\<close>. It is
  not in the source; it is what the source is compared with.
\<close>

definition kube_pod_status_ready_elif_chain :: handler where
  "kube_pod_status_ready_elif_chain message kw =
     (let service_check_name = ''kube_pod_status_ready'' in
      case kwargs_get_pods kw of
        Inl e \<Rightarrow> raise e
      | Inr PyNone \<Rightarrow>
          emit (LogDebug ''no pods configured, kube_pod_status_ready has nothing to do, returning...'')
      | Inr configured_pods \<Rightarrow>
          for_each (\<lambda>m.
            let pod_name = extract_label_value ''pod'' (label m) in
            case py_in pod_name configured_pods of
              Inl e \<Rightarrow> raise e
            | Inr False \<Rightarrow> skip
            | Inr True \<Rightarrow>
                (case eval_metric_condition m of (nm, val) \<Rightarrow>
                 let tags = [''namespace:'' @ format_str (extract_label_value ''namespace'' (label m)),
                             ''pod:'' @ format_str pod_name] in
                 if asserted nm val ''true''
                 then emit (ServiceCheck service_check_name OK tags)
                 else if asserted nm val ''false''
                 then emit (ServiceCheck service_check_name CRITICAL tags)
                 else if asserted nm val ''unknown''
                 then emit (ServiceCheck service_check_name UNKNOWN tags) else skip))
          (metric message))"

subsection \<open>The other attributes of the processor\<close>

text \<open>
  \<^verbatim>\<open>getattr(self, message.name)\<close> finds every attribute of the processor, not only the
  family handlers. What the call \<^verbatim>\<open>attr(message, **kwargs)\<close> does for each:

  \<^item> \<^verbatim>\<open>process\<close> calls itself with the same arguments, without end, until the
    interpreter's recursion limit raises a RuntimeError, which no level catches;
  \<^item> \<^verbatim>\<open>_eval_metric_condition(self, metric)\<close> takes no keyword; with none, it reads
    \<^verbatim>\<open>message.gauge\<close>, which a family does not have;
  \<^item> \<^verbatim>\<open>_extract_label_value(self, name, labels)\<close> gets the message as \<^verbatim>\<open>name\<close> and
    needs exactly the keyword \<^verbatim>\<open>labels\<close>; it then reads \<^verbatim>\<open>.name\<close> of the first element
    of \<^verbatim>\<open>labels\<close>, which no value of \<^typ>\<open>pyval\<close> has;
  \<^item> \<^verbatim>\<open>__init__(self, kubernetes_check)\<close> takes no keyword; with none, it reads
    \<^verbatim>\<open>message.log\<close>, which a family does not have (it has assigned \<^verbatim>\<open>self.kube_check\<close>
    by then; the model ends with this call);
  \<^item> the fields \<^verbatim>\<open>kube_check\<close>, \<^verbatim>\<open>log\<close> and \<^verbatim>\<open>gauge\<close> hold objects of other modules:
    calling them is \<open>Outside\<close>.

  Besides these, the object has the attributes that the interpreter gives it (such as
  \<^verbatim>\<open>__doc__\<close> and \<^verbatim>\<open>__class__\<close>). Which they are depends on the interpreter and not on
  this file, so their names are a parameter, \<open>interp\<close>, of the lookup and of
  \<^verbatim>\<open>process\<close>; calling one of them is \<open>Outside\<close> too. A name that is neither in the
  table below nor in \<open>interp\<close> is no attribute: the lookup raises AttributeError.
\<close>

definition call_process :: handler where
  "call_process message kw = raise RuntimeError"

definition call_eval_metric_condition :: handler where
  "call_eval_metric_condition message kw =
     (if kw \<noteq> [] then raise TypeError else raise AttributeError)"

definition call_extract_label_value :: handler where
  "call_extract_label_value message kw =
     (if set (map fst kw) \<noteq> {''labels''} then raise TypeError
      else case map_of kw ''labels'' of
        None \<Rightarrow> raise TypeError
      | Some PyNone \<Rightarrow> raise TypeError
      | Some (PyStr s) \<Rightarrow> if s = [] then skip else raise AttributeError
      | Some (PyList vs) \<Rightarrow> if vs = [] then skip else raise AttributeError
      | Some (PyDict d) \<Rightarrow> if d = [] then skip else raise AttributeError)"

definition call_init :: handler where
  "call_init message kw =
     (if kw \<noteq> [] then raise TypeError else raise AttributeError)"

definition call_outside :: handler where
  "call_outside message kw = ([], Outside)"

definition attributes :: "(string \<times> handler) list" where
  "attributes =
     [(''kube_check'', call_outside),
      (''log'', call_outside),
      (''gauge'', call_outside),
      (''__init__'', call_init),
      (''process'', call_process),
      (''_eval_metric_condition'', call_eval_metric_condition),
      (''_extract_label_value'', call_extract_label_value),
      (''kube_node_status_capacity_cpu_cores'', kube_node_status_capacity_cpu_cores),
      (''kube_node_status_capacity_memory_bytes'', kube_node_status_capacity_memory_bytes),
      (''kube_node_status_capacity_pods'', kube_node_status_capacity_pods),
      (''kube_node_status_allocateable_cpu_cores'', kube_node_status_allocateable_cpu_cores),
      (''kube_node_status_allocateable_memory_bytes'', kube_node_status_allocateable_memory_bytes),
      (''kube_node_status_allocateable_pods'', kube_node_status_allocateable_pods),
      (''kube_deployment_status_replicas_available'', kube_deployment_status_replicas_available),
      (''kube_deployment_status_replicas_unavailable'', kube_deployment_status_replicas_unavailable),
      (''kube_deployment_status_replicas_updated'', kube_deployment_status_replicas_updated),
      (''kube_deployment_spec_replicas'', kube_deployment_spec_replicas),
      (''kube_node_status_ready'', kube_node_status_ready),
      (''kube_node_status_out_of_disk'', kube_node_status_out_of_disk),
      (''kube_pod_status_ready'', kube_pod_status_ready)]"

text \<open>
  The names of the family handlers: the methods of the class that take a message and
  the keyword arguments, which are the rows of the spec's mapping table and its three
  service checks.
\<close>

definition handler_names :: "string list" where
  "handler_names =
     [''kube_node_status_capacity_cpu_cores'',
      ''kube_node_status_capacity_memory_bytes'',
      ''kube_node_status_capacity_pods'',
      ''kube_node_status_allocateable_cpu_cores'',
      ''kube_node_status_allocateable_memory_bytes'',
      ''kube_node_status_allocateable_pods'',
      ''kube_deployment_status_replicas_available'',
      ''kube_deployment_status_replicas_unavailable'',
      ''kube_deployment_status_replicas_updated'',
      ''kube_deployment_spec_replicas'',
      ''kube_node_status_ready'',
      ''kube_node_status_out_of_disk'',
      ''kube_pod_status_ready'']"

definition getattr_self :: "string list \<Rightarrow> string \<Rightarrow> handler option" where
  "getattr_self interp n =
     (case map_of attributes n of
        Some f \<Rightarrow> Some f
      | None \<Rightarrow> if n \<in> set interp then Some call_outside else None)"

subsection \<open>The dispatcher\<close>

text \<open>
  \<^verbatim>\<open>process\<close>: the \<^verbatim>\<open>try\<close> block holds both the lookup and the call, so the
  \<^verbatim>\<open>except AttributeError\<close> clause catches a missing attribute and an AttributeError
  raised while the attribute runs alike; what was emitted before stands. The first
  argument stands for what \<^verbatim>\<open>self\<close> brings besides the class: the names of the
  interpreter's attributes.
\<close>

definition process :: "string list \<Rightarrow> MetricFamily \<Rightarrow> kwargs \<Rightarrow> result" where
  "process interp message kw =
     (case getattr_self interp (name message) of
        None \<Rightarrow> emit (LogDebug (''Unable to handle metric: '' @ name message))
      | Some f \<Rightarrow>
          (case f message kw of
             (es, Raised AttributeError) \<Rightarrow>
               (es @ [LogDebug (''Unable to handle metric: '' @ name message)], Returned)
           | r \<Rightarrow> r))"

section \<open>Properties\<close>

subsection \<open>Sequencing and loops\<close>

lemma seq_Returned [simp]: "seq (es, Returned) r = (es @ fst r, snd r)"
  by (simp add: seq_def split: prod.splits)

lemma seq_skip [simp]: "seq skip r = r"
  by (simp add: skip_def)

lemma seq_emit [simp]: "seq (emit ev) r = (ev # fst r, snd r)"
  by (simp add: emit_def)

lemma seq_raise [simp]: "seq (raise e) r = raise e"
  by (simp add: seq_def raise_def)

text \<open>A loop whose body always returns emits the bodies' events in the order of the samples.\<close>

lemma for_each_returns:
  "(\<And>x. x \<in> set xs \<Longrightarrow> body x = (g x, Returned)) \<Longrightarrow>
   for_each body xs = (concat (map g xs), Returned)"
  by (induction xs) (simp_all add: skip_def)

lemma for_each_emits:
  "(\<And>x. x \<in> set xs \<Longrightarrow> body x = emit (g x)) \<Longrightarrow>
   for_each body xs = (map g xs, Returned)"
  by (induction xs) (simp_all add: skip_def)

subsection \<open>The helpers\<close>

lemma eval_metric_condition_loop_eq:
  "eval_metric_condition_loop val ls =
     (case extract_label_value ''condition'' ls of
        None \<Rightarrow> (None, None) | Some c \<Rightarrow> (Some c, Some val))"
  by (induction ls) simp_all

lemma eval_metric_condition_eq:
  "eval_metric_condition m =
     (case extract_label_value ''condition'' (label m) of
        None \<Rightarrow> (None, None)
      | Some c \<Rightarrow> (Some c, Some (gauge_value (gauge m) \<noteq> 0)))"
  by (simp add: eval_metric_condition_def eval_metric_condition_loop_eq)

lemma extract_label_value_None_iff:
  "extract_label_value n ls = None \<longleftrightarrow> n \<notin> set (map label_name ls)"
  by (induction ls) auto

lemma host_tag_find:
  "format_str (extract_label_value ''node'' ls) =
     (case find (\<lambda>l. label_name l = ''node'') ls of None \<Rightarrow> ''None'' | Some l \<Rightarrow> label_value l)"
  by (induction ls) simp_all

subsection \<open>Dispatch\<close>

lemma getattr_handlers:
  "getattr_self interp ''kube_node_status_capacity_cpu_cores'' = Some kube_node_status_capacity_cpu_cores"
  "getattr_self interp ''kube_node_status_capacity_memory_bytes'' = Some kube_node_status_capacity_memory_bytes"
  "getattr_self interp ''kube_node_status_capacity_pods'' = Some kube_node_status_capacity_pods"
  "getattr_self interp ''kube_node_status_allocateable_cpu_cores'' = Some kube_node_status_allocateable_cpu_cores"
  "getattr_self interp ''kube_node_status_allocateable_memory_bytes'' = Some kube_node_status_allocateable_memory_bytes"
  "getattr_self interp ''kube_node_status_allocateable_pods'' = Some kube_node_status_allocateable_pods"
  "getattr_self interp ''kube_deployment_status_replicas_available'' = Some kube_deployment_status_replicas_available"
  "getattr_self interp ''kube_deployment_status_replicas_unavailable'' = Some kube_deployment_status_replicas_unavailable"
  "getattr_self interp ''kube_deployment_status_replicas_updated'' = Some kube_deployment_status_replicas_updated"
  "getattr_self interp ''kube_deployment_spec_replicas'' = Some kube_deployment_spec_replicas"
  "getattr_self interp ''kube_node_status_ready'' = Some kube_node_status_ready"
  "getattr_self interp ''kube_node_status_out_of_disk'' = Some kube_node_status_out_of_disk"
  "getattr_self interp ''kube_pod_status_ready'' = Some kube_pod_status_ready"
  by (simp_all add: getattr_self_def attributes_def)

text \<open>A handler that returns: \<^verbatim>\<open>process\<close> returns with the handler's events.\<close>

lemma process_handler:
  "name message = n \<Longrightarrow> getattr_self interp n = Some f \<Longrightarrow> f message kw = (es, Returned) \<Longrightarrow>
   process interp message kw = (es, Returned)"
  by (simp add: process_def)

text \<open>A handler that raises anything but an AttributeError: \<^verbatim>\<open>process\<close> raises it too.\<close>

lemma process_propagates:
  "getattr_self interp (name message) = Some f \<Longrightarrow> f message kw = (es, Raised e) \<Longrightarrow>
   e \<noteq> AttributeError \<Longrightarrow> process interp message kw = (es, Raised e)"
  by (cases e) (simp_all add: process_def)

text \<open>
  A handler that raises an AttributeError: \<^verbatim>\<open>process\<close> catches it, logs the line of
  the missing handler and returns.
\<close>

lemma process_swallows:
  "getattr_self interp (name message) = Some f \<Longrightarrow> f message kw = (es, Raised AttributeError) \<Longrightarrow>
   process interp message kw = (es @ [LogDebug (''Unable to handle metric: '' @ name message)], Returned)"
  by (simp add: process_def)

subsection \<open>Failures inside a handler\<close>

text \<open>
  C1 (what the code does at the failing input). The claim: every failure raised inside
  a registered handler leaves \<^verbatim>\<open>process\<close> as an error, an AttributeError raised in the
  handler's body included. The code: with the keyword \<^verbatim>\<open>instance=None\<close>, the
  pod-readiness handler raises an AttributeError at \<^verbatim>\<open>None.get\<close>, for any samples, and
  \<^verbatim>\<open>process\<close> catches it, logs that it is unable to handle the metric, and returns.
\<close>

theorem process_swallows_handler_attribute_error:
  "kube_pod_status_ready \<lparr>name = ''kube_pod_status_ready'', metric = ms\<rparr> [(''instance'', PyNone)]
     = ([], Raised AttributeError)
   \<and> process interp \<lparr>name = ''kube_pod_status_ready'', metric = ms\<rparr> [(''instance'', PyNone)]
     = ([LogDebug ''Unable to handle metric: kube_pod_status_ready''], Returned)"
proof -
  have h: "kube_pod_status_ready \<lparr>name = ''kube_pod_status_ready'', metric = ms\<rparr>
             [(''instance'', PyNone)] = ([], Raised AttributeError)"
    by (simp add: kube_pod_status_ready_def kwargs_get_pods_def raise_def)
  have g: "getattr_self interp (name \<lparr>name = ''kube_pod_status_ready'', metric = ms\<rparr>)
             = Some kube_pod_status_ready"
    by (simp add: getattr_handlers)
  from process_swallows [OF g h] h show ?thesis by simp
qed

text \<open>
  The other failures of the handlers do leave \<^verbatim>\<open>process\<close>: the IndexError of the
  cpu-capacity handler on a sample with no label.
\<close>

lemma cpu_capacity_no_label_raises:
  "process interp \<lparr>name = ''kube_node_status_capacity_cpu_cores'',
            metric = [\<lparr>label = [], gauge = \<lparr>gauge_value = 4\<rparr>\<rparr>]\<rparr> kw
   = ([], Raised IndexError)"
proof -
  have "kube_node_status_capacity_cpu_cores
          \<lparr>name = ''kube_node_status_capacity_cpu_cores'',
           metric = [\<lparr>label = [], gauge = \<lparr>gauge_value = 4\<rparr>\<rparr>]\<rparr> kw = ([], Raised IndexError)"
    by (simp add: kube_node_status_capacity_cpu_cores_def raise_def seq_def skip_def)
  then show ?thesis
    by (intro process_propagates [where f = kube_node_status_capacity_cpu_cores])
       (simp_all add: getattr_handlers)
qed

subsection \<open>Condition evaluation without a condition label\<close>

text \<open>
  C2 (counterexample). The claim: without a label named \<^verbatim>\<open>condition\<close>, the helper
  returns the absent name with the truth of the gauge. At a sample with the one label
  \<^verbatim>\<open>node\<close> and the gauge 1, whose truth is \<^verbatim>\<open>True\<close>, it does not.
\<close>

theorem eval_metric_condition_no_condition_counterexample:
  "''condition'' \<notin> set (map label_name (label
       \<lparr>label = [\<lparr>label_name = ''node'', label_value = ''nodeA''\<rparr>], gauge = \<lparr>gauge_value = 1\<rparr>\<rparr>))
   \<and> gauge_value (gauge
       \<lparr>label = [\<lparr>label_name = ''node'', label_value = ''nodeA''\<rparr>], gauge = \<lparr>gauge_value = 1\<rparr>\<rparr>) \<noteq> 0
   \<and> eval_metric_condition
       \<lparr>label = [\<lparr>label_name = ''node'', label_value = ''nodeA''\<rparr>], gauge = \<lparr>gauge_value = 1\<rparr>\<rparr>
       \<noteq> (None, Some True)"
  by (simp add: eval_metric_condition_def)

text \<open>
  C2 (amended). For every sample with no label named \<^verbatim>\<open>condition\<close>, the helper returns
  the pair of two absent values: the second component is \<^verbatim>\<open>None\<close> too, whatever the
  gauge, as the helper's docstring says.
\<close>

theorem eval_metric_condition_no_condition:
  assumes "''condition'' \<notin> set (map label_name (label m))"
  shows "eval_metric_condition m = (None, None)"
proof -
  from assms have "extract_label_value ''condition'' (label m) = None"
    by (simp add: extract_label_value_None_iff)
  then show ?thesis by (simp add: eval_metric_condition_eq)
qed

theorem eval_metric_condition_no_condition_witness:
  "eval_metric_condition
     \<lparr>label = [\<lparr>label_name = ''node'', label_value = ''nodeA''\<rparr>], gauge = \<lparr>gauge_value = 1\<rparr>\<rparr>
   = (None, None)"
  using eval_metric_condition_no_condition
    [of "\<lparr>label = [\<lparr>label_name = ''node'', label_value = ''nodeA''\<rparr>], gauge = \<lparr>gauge_value = 1\<rparr>\<rparr>"]
  by simp

subsection \<open>The node cpu-capacity family\<close>

text \<open>
  C3 (counterexample). The claim: every sample of the node cpu-capacity family gives
  exactly one gauge, tagged with the value of its first label. A family of three samples
  whose second sample has no label gives one gauge, for the first sample; the second
  raises an IndexError at \<^verbatim>\<open>metric.label[0]\<close>, which leaves \<^verbatim>\<open>process\<close>, and the third
  sample, which has a label, gets no gauge.
\<close>

theorem cpu_capacity_host_is_first_label_counterexample:
  "process [''__class__'', ''__dict__'', ''__doc__'', ''__module__'']
      \<lparr>name = ''kube_node_status_capacity_cpu_cores'',
       metric = [\<lparr>label = [\<lparr>label_name = ''zone'', label_value = ''nodeA''\<rparr>],
                  gauge = \<lparr>gauge_value = 4\<rparr>\<rparr>,
                 \<lparr>label = [], gauge = \<lparr>gauge_value = 8\<rparr>\<rparr>,
                 \<lparr>label = [\<lparr>label_name = ''node'', label_value = ''nodeC''\<rparr>],
                  gauge = \<lparr>gauge_value = 2\<rparr>\<rparr>]\<rparr> []
   = ([GaugeCall ''kubernetes.node.cpu_capacity'' 4 [''host:nodeA'']], Raised IndexError)"
  by (simp add: process_def getattr_self_def attributes_def
        kube_node_status_capacity_cpu_cores_def emit_def raise_def seq_def skip_def)

text \<open>
  C3 (amended). For the node cpu-capacity family, when every sample of the family has at
  least one label, each sample gives exactly one gauge \<^verbatim>\<open>kubernetes.node.cpu_capacity\<close>
  with the sample's gauge value and the single tag \<^verbatim>\<open>host:\<close> followed by the value of
  the first label of the sample, whatever that label is named; the gauges come in the
  order of the samples and the call returns.
\<close>

theorem cpu_capacity_host_is_first_label:
  assumes "name message = ''kube_node_status_capacity_cpu_cores''"
      and "\<forall>m \<in> set (metric message). label m \<noteq> []"
  shows "process interp message kw =
           (map (\<lambda>m. GaugeCall ''kubernetes.node.cpu_capacity'' (gauge_value (gauge m))
                        [''host:'' @ label_value (hd (label m))])
                (metric message),
            Returned)"
proof -
  have "kube_node_status_capacity_cpu_cores message kw =
          (map (\<lambda>m. GaugeCall ''kubernetes.node.cpu_capacity'' (gauge_value (gauge m))
                        [''host:'' @ label_value (hd (label m))])
               (metric message),
           Returned)"
    unfolding kube_node_status_capacity_cpu_cores_def Let_def
  proof (rule for_each_emits)
    fix m assume "m \<in> set (metric message)"
    with assms(2) have "label m \<noteq> []" by blast
    then show "(case label m of
                  [] \<Rightarrow> raise IndexError
                | l # x \<Rightarrow> emit (GaugeCall ''kubernetes.node.cpu_capacity'' (gauge_value (gauge m))
                                   [''host:'' @ label_value l]))
               = emit (GaugeCall ''kubernetes.node.cpu_capacity'' (gauge_value (gauge m))
                         [''host:'' @ label_value (hd (label m))])"
      by (cases "label m") simp_all
  qed
  with assms(1) show ?thesis
    by (rule process_handler [OF _ getattr_handlers(1)])
qed

theorem cpu_capacity_host_is_first_label_witness:
  "process [''__class__'', ''__dict__'', ''__doc__'', ''__module__'']
      \<lparr>name = ''kube_node_status_capacity_cpu_cores'',
            metric = [\<lparr>label = [\<lparr>label_name = ''zone'', label_value = ''nodeA''\<rparr>,
                                \<lparr>label_name = ''node'', label_value = ''nodeB''\<rparr>],
                       gauge = \<lparr>gauge_value = 4\<rparr>\<rparr>]\<rparr> []
   = ([GaugeCall ''kubernetes.node.cpu_capacity'' 4 [''host:nodeA'']], Returned)"
  using cpu_capacity_host_is_first_label
    [where interp = "[''__class__'', ''__dict__'', ''__doc__'', ''__module__'']",
     of "\<lparr>name = ''kube_node_status_capacity_cpu_cores'',
            metric = [\<lparr>label = [\<lparr>label_name = ''zone'', label_value = ''nodeA''\<rparr>,
                                \<lparr>label_name = ''node'', label_value = ''nodeB''\<rparr>],
                       gauge = \<lparr>gauge_value = 4\<rparr>\<rparr>]\<rparr>" "[]"]
  by simp

subsection \<open>The node condition families\<close>

lemma kube_node_status_ready_eq:
  "kube_node_status_ready message kw =
     (concat (map (\<lambda>m.
        case extract_label_value ''condition'' (label m) of
          None \<Rightarrow> []
        | Some c \<Rightarrow>
            if gauge_value (gauge m) = 0 then []
            else if c = ''true'' then
              [ServiceCheck ''kube_node_status_ready'' OK
                 [''host:'' @ format_str (extract_label_value ''node'' (label m))]]
            else if c = ''false'' then
              [ServiceCheck ''kube_node_status_ready'' CRITICAL
                 [''host:'' @ format_str (extract_label_value ''node'' (label m))]]
            else if c = ''unknown'' then
              [ServiceCheck ''kube_node_status_ready'' UNKNOWN
                 [''host:'' @ format_str (extract_label_value ''node'' (label m))]]
            else []) (metric message)), Returned)"
  unfolding kube_node_status_ready_def Let_def
  by (rule for_each_returns)
     (simp add: eval_metric_condition_eq asserted_def emit_def skip_def split: option.splits)

lemma kube_node_status_out_of_disk_eq:
  "kube_node_status_out_of_disk message kw =
     (concat (map (\<lambda>m.
        case extract_label_value ''condition'' (label m) of
          None \<Rightarrow> []
        | Some c \<Rightarrow>
            if gauge_value (gauge m) = 0 then []
            else if c = ''true'' then
              [ServiceCheck ''kube_node_status_out_of_disk'' CRITICAL
                 [''host:'' @ format_str (extract_label_value ''node'' (label m))]]
            else if c = ''false'' then
              [ServiceCheck ''kube_node_status_out_of_disk'' OK
                 [''host:'' @ format_str (extract_label_value ''node'' (label m))]]
            else if c = ''unknown'' then
              [ServiceCheck ''kube_node_status_out_of_disk'' UNKNOWN
                 [''host:'' @ format_str (extract_label_value ''node'' (label m))]]
            else []) (metric message)), Returned)"
  unfolding kube_node_status_out_of_disk_def Let_def
  by (rule for_each_returns)
     (simp add: eval_metric_condition_eq asserted_def emit_def skip_def split: option.splits)

text \<open>
  C4. For the node-readiness family and the node-out-of-disk family, each sample gives
  at most one service check, named after the family and tagged \<^verbatim>\<open>host:\<close> with the value
  of the label \<^verbatim>\<open>node\<close>: none when the sample has no condition label or its gauge is
  zero; otherwise the status of the table, which for readiness is \<^verbatim>\<open>true\<close> to OK and
  \<^verbatim>\<open>false\<close> to CRITICAL, for out-of-disk \<^verbatim>\<open>true\<close> to CRITICAL and \<^verbatim>\<open>false\<close> to OK, for
  both \<^verbatim>\<open>unknown\<close> to UNKNOWN, and none for any other condition value.
\<close>

theorem node_condition_status_mapping:
  assumes "(n, on_true, on_false) \<in> set [(''kube_node_status_ready'', OK, CRITICAL),
                                          (''kube_node_status_out_of_disk'', CRITICAL, OK)]"
      and "name message = n"
  shows "process interp message kw =
           (concat (map (\<lambda>m.
              let tags = [''host:'' @ format_str (extract_label_value ''node'' (label m))] in
              case extract_label_value ''condition'' (label m) of
                None \<Rightarrow> []
              | Some c \<Rightarrow>
                  if gauge_value (gauge m) = 0 then []
                  else if c = ''true'' then [ServiceCheck n on_true tags]
                  else if c = ''false'' then [ServiceCheck n on_false tags]
                  else if c = ''unknown'' then [ServiceCheck n UNKNOWN tags]
                  else [])
              (metric message)),
            Returned)"
proof -
  from assms(1) have
    "n = ''kube_node_status_ready'' \<and> on_true = OK \<and> on_false = CRITICAL \<or>
     n = ''kube_node_status_out_of_disk'' \<and> on_true = CRITICAL \<and> on_false = OK"
    by (simp only: list.set insert_iff empty_iff prod.inject simp_thms)
  then show ?thesis
  proof (elim disjE conjE)
    assume "n = ''kube_node_status_ready''" "on_true = OK" "on_false = CRITICAL"
    with assms(2) show ?thesis
      unfolding Let_def
      by (simp only: process_handler [OF _ getattr_handlers(11) kube_node_status_ready_eq])
  next
    assume "n = ''kube_node_status_out_of_disk''" "on_true = CRITICAL" "on_false = OK"
    with assms(2) show ?thesis
      unfolding Let_def
      by (simp only: process_handler [OF _ getattr_handlers(12) kube_node_status_out_of_disk_eq])
  qed
qed

theorem node_condition_status_mapping_witness:
  "process [''__class__'', ''__dict__'', ''__doc__'', ''__module__'']
      \<lparr>name = ''kube_node_status_ready'',
            metric = [\<lparr>label = [\<lparr>label_name = ''node'', label_value = ''nodeA''\<rparr>,
                                \<lparr>label_name = ''condition'', label_value = ''true''\<rparr>],
                       gauge = \<lparr>gauge_value = 1\<rparr>\<rparr>,
                      \<lparr>label = [\<lparr>label_name = ''node'', label_value = ''nodeA''\<rparr>,
                                \<lparr>label_name = ''condition'', label_value = ''false''\<rparr>],
                       gauge = \<lparr>gauge_value = 0\<rparr>\<rparr>,
                      \<lparr>label = [\<lparr>label_name = ''node'', label_value = ''nodeA''\<rparr>],
                       gauge = \<lparr>gauge_value = 1\<rparr>\<rparr>]\<rparr> []
   = ([ServiceCheck ''kube_node_status_ready'' OK [''host:nodeA'']], Returned)"
  using node_condition_status_mapping
    [where interp = "[''__class__'', ''__dict__'', ''__doc__'', ''__module__'']",
     of "''kube_node_status_ready''" OK CRITICAL
        "\<lparr>name = ''kube_node_status_ready'',
            metric = [\<lparr>label = [\<lparr>label_name = ''node'', label_value = ''nodeA''\<rparr>,
                                \<lparr>label_name = ''condition'', label_value = ''true''\<rparr>],
                       gauge = \<lparr>gauge_value = 1\<rparr>\<rparr>,
                      \<lparr>label = [\<lparr>label_name = ''node'', label_value = ''nodeA''\<rparr>,
                                \<lparr>label_name = ''condition'', label_value = ''false''\<rparr>],
                       gauge = \<lparr>gauge_value = 0\<rparr>\<rparr>,
                      \<lparr>label = [\<lparr>label_name = ''node'', label_value = ''nodeA''\<rparr>],
                       gauge = \<lparr>gauge_value = 1\<rparr>\<rparr>]\<rparr>" "[]"]
  by simp

subsection \<open>Families without a handler\<close>

text \<open>
  C5 (counterexample). The claim: a family whose name matches no registered handler
  makes \<^verbatim>\<open>process\<close> return normally. The name \<^verbatim>\<open>_extract_label_value\<close> is none of the
  family handlers, but it is a method of the processor: the lookup finds it, the call
  lacks the argument \<^verbatim>\<open>labels\<close>, and the TypeError leaves \<^verbatim>\<open>process\<close>.
\<close>

theorem process_non_handler_counterexample:
  "''_extract_label_value'' \<notin> set handler_names
   \<and> process [''__class__'', ''__dict__'', ''__doc__'', ''__module__'']
      \<lparr>name = ''_extract_label_value'', metric = []\<rparr> [] = ([], Raised TypeError)"
  by (simp add: handler_names_def process_def getattr_self_def attributes_def
        call_extract_label_value_def raise_def)

text \<open>
  C5 (amended). For every family whose name is the name of no attribute of the processor
  (no family handler, none of \<^verbatim>\<open>process\<close>, \<^verbatim>\<open>_eval_metric_condition\<close>,
  \<^verbatim>\<open>_extract_label_value\<close>, \<^verbatim>\<open>__init__\<close>, \<^verbatim>\<open>kube_check\<close>, \<^verbatim>\<open>log\<close>, \<^verbatim>\<open>gauge\<close>, and none
  of the attributes that the interpreter provides), and for every context, \<^verbatim>\<open>process\<close>
  returns normally, having made no gauge and no service-check call and having logged one
  debug line that names the family. A name that only looks like an interpreter attribute,
  such as \<^verbatim>\<open>__foo\<close>, is among them.
\<close>

theorem process_unknown_attribute:
  assumes "name message \<notin> set (map fst attributes)"
      and "name message \<notin> set interp"
  shows "process interp message kw = ([LogDebug (''Unable to handle metric: '' @ name message)], Returned)"
proof -
  from assms(1) have "map_of attributes (name message) = None"
    by (simp add: map_of_eq_None_iff)
  with assms(2) have "getattr_self interp (name message) = None"
    by (simp add: getattr_self_def)
  then show ?thesis by (simp add: process_def emit_def)
qed

theorem process_unknown_attribute_witness:
  "process [''__class__'', ''__dict__'', ''__doc__'', ''__module__'']
      \<lparr>name = ''kube_pod_info'', metric = []\<rparr> []
   = ([LogDebug ''Unable to handle metric: kube_pod_info''], Returned)
   \<and> process [''__class__'', ''__dict__'', ''__doc__'', ''__module__'']
      \<lparr>name = ''__foo'', metric = []\<rparr> [(''instance'', PyNone)]
   = ([LogDebug ''Unable to handle metric: __foo''], Returned)"
  using process_unknown_attribute
    [where interp = "[''__class__'', ''__dict__'', ''__doc__'', ''__module__'']"
       and message = "\<lparr>name = ''kube_pod_info'', metric = []\<rparr>" and kw = "[]"]
    process_unknown_attribute
    [where interp = "[''__class__'', ''__dict__'', ''__doc__'', ''__module__'']"
       and message = "\<lparr>name = ''__foo'', metric = []\<rparr>" and kw = "[(''instance'', PyNone)]"]
  by (simp add: attributes_def)

subsection \<open>The other node families\<close>

lemma node_host_tag_handlers:
  "kube_node_status_capacity_memory_bytes message kw =
     (map (\<lambda>m. GaugeCall ''kubernetes.node.memory_capacity'' (gauge_value (gauge m))
                  [''host:'' @ format_str (extract_label_value ''node'' (label m))]) (metric message), Returned)"
  "kube_node_status_capacity_pods message kw =
     (map (\<lambda>m. GaugeCall ''kubernetes.node.pods_capacity'' (gauge_value (gauge m))
                  [''host:'' @ format_str (extract_label_value ''node'' (label m))]) (metric message), Returned)"
  "kube_node_status_allocateable_cpu_cores message kw =
     (map (\<lambda>m. GaugeCall ''kubernetes.node.cpu_allocatable'' (gauge_value (gauge m))
                  [''host:'' @ format_str (extract_label_value ''node'' (label m))]) (metric message), Returned)"
  "kube_node_status_allocateable_memory_bytes message kw =
     (map (\<lambda>m. GaugeCall ''kubernetes.node.memory_allocatable'' (gauge_value (gauge m))
                  [''host:'' @ format_str (extract_label_value ''node'' (label m))]) (metric message), Returned)"
  "kube_node_status_allocateable_pods message kw =
     (map (\<lambda>m. GaugeCall ''kubernetes.node.pods_allocatable'' (gauge_value (gauge m))
                  [''host:'' @ format_str (extract_label_value ''node'' (label m))]) (metric message), Returned)"
  unfolding kube_node_status_capacity_memory_bytes_def kube_node_status_capacity_pods_def
    kube_node_status_allocateable_cpu_cores_def kube_node_status_allocateable_memory_bytes_def
    kube_node_status_allocateable_pods_def Let_def
  by (rule for_each_emits, rule refl)+

text \<open>
  C6. For the five node families other than cpu-capacity, each sample gives one gauge of
  the family's metric name with the sample's gauge value and the single tag \<^verbatim>\<open>host:\<close>
  followed by the value of the first label named \<^verbatim>\<open>node\<close>, and by \<^verbatim>\<open>None\<close> when the
  sample has no such label.
\<close>

theorem node_families_host_is_node_label:
  assumes "(n, g) \<in> set [(''kube_node_status_capacity_memory_bytes'', ''kubernetes.node.memory_capacity''),
                          (''kube_node_status_capacity_pods'', ''kubernetes.node.pods_capacity''),
                          (''kube_node_status_allocateable_cpu_cores'', ''kubernetes.node.cpu_allocatable''),
                          (''kube_node_status_allocateable_memory_bytes'', ''kubernetes.node.memory_allocatable''),
                          (''kube_node_status_allocateable_pods'', ''kubernetes.node.pods_allocatable'')]"
      and "name message = n"
  shows "process interp message kw =
           (map (\<lambda>m. GaugeCall g (gauge_value (gauge m))
                        [''host:'' @ (case find (\<lambda>l. label_name l = ''node'') (label m) of
                                        None \<Rightarrow> ''None''
                                      | Some l \<Rightarrow> label_value l)])
                (metric message),
            Returned)"
proof -
  from assms(1) have
    "n = ''kube_node_status_capacity_memory_bytes'' \<and> g = ''kubernetes.node.memory_capacity'' \<or>
     n = ''kube_node_status_capacity_pods'' \<and> g = ''kubernetes.node.pods_capacity'' \<or>
     n = ''kube_node_status_allocateable_cpu_cores'' \<and> g = ''kubernetes.node.cpu_allocatable'' \<or>
     n = ''kube_node_status_allocateable_memory_bytes'' \<and> g = ''kubernetes.node.memory_allocatable'' \<or>
     n = ''kube_node_status_allocateable_pods'' \<and> g = ''kubernetes.node.pods_allocatable''"
    by (simp only: list.set insert_iff empty_iff prod.inject simp_thms)
  then show ?thesis
  proof (elim disjE conjE)
    assume "n = ''kube_node_status_capacity_memory_bytes''" "g = ''kubernetes.node.memory_capacity''"
    with assms(2) show ?thesis
      unfolding host_tag_find [symmetric]
      by (simp only: process_handler [OF _ getattr_handlers(2) node_host_tag_handlers(1)])
  next
    assume "n = ''kube_node_status_capacity_pods''" "g = ''kubernetes.node.pods_capacity''"
    with assms(2) show ?thesis
      unfolding host_tag_find [symmetric]
      by (simp only: process_handler [OF _ getattr_handlers(3) node_host_tag_handlers(2)])
  next
    assume "n = ''kube_node_status_allocateable_cpu_cores''" "g = ''kubernetes.node.cpu_allocatable''"
    with assms(2) show ?thesis
      unfolding host_tag_find [symmetric]
      by (simp only: process_handler [OF _ getattr_handlers(4) node_host_tag_handlers(3)])
  next
    assume "n = ''kube_node_status_allocateable_memory_bytes''" "g = ''kubernetes.node.memory_allocatable''"
    with assms(2) show ?thesis
      unfolding host_tag_find [symmetric]
      by (simp only: process_handler [OF _ getattr_handlers(5) node_host_tag_handlers(4)])
  next
    assume "n = ''kube_node_status_allocateable_pods''" "g = ''kubernetes.node.pods_allocatable''"
    with assms(2) show ?thesis
      unfolding host_tag_find [symmetric]
      by (simp only: process_handler [OF _ getattr_handlers(6) node_host_tag_handlers(5)])
  qed
qed

theorem node_families_host_is_node_label_witness:
  "process [''__class__'', ''__dict__'', ''__doc__'', ''__module__'']
      \<lparr>name = ''kube_node_status_capacity_pods'',
            metric = [\<lparr>label = [\<lparr>label_name = ''zone'', label_value = ''z1''\<rparr>,
                                \<lparr>label_name = ''node'', label_value = ''nodeB''\<rparr>,
                                \<lparr>label_name = ''node'', label_value = ''nodeC''\<rparr>],
                       gauge = \<lparr>gauge_value = 110\<rparr>\<rparr>,
                      \<lparr>label = [\<lparr>label_name = ''zone'', label_value = ''z1''\<rparr>],
                       gauge = \<lparr>gauge_value = 0\<rparr>\<rparr>]\<rparr> []
   = ([GaugeCall ''kubernetes.node.pods_capacity'' 110 [''host:nodeB''],
       GaugeCall ''kubernetes.node.pods_capacity'' 0 [''host:None'']], Returned)"
  using node_families_host_is_node_label
    [where interp = "[''__class__'', ''__dict__'', ''__doc__'', ''__module__'']",
     of "''kube_node_status_capacity_pods''" "''kubernetes.node.pods_capacity''"
        "\<lparr>name = ''kube_node_status_capacity_pods'',
            metric = [\<lparr>label = [\<lparr>label_name = ''zone'', label_value = ''z1''\<rparr>,
                                \<lparr>label_name = ''node'', label_value = ''nodeB''\<rparr>,
                                \<lparr>label_name = ''node'', label_value = ''nodeC''\<rparr>],
                       gauge = \<lparr>gauge_value = 110\<rparr>\<rparr>,
                      \<lparr>label = [\<lparr>label_name = ''zone'', label_value = ''z1''\<rparr>],
                       gauge = \<lparr>gauge_value = 0\<rparr>\<rparr>]\<rparr>" "[]"]
  by simp

subsection \<open>The deployment families\<close>

lemma deployment_handlers:
  "kube_deployment_status_replicas_available message kw =
     (map (\<lambda>m. GaugeCall ''kubernetes.deployment.replicas_available'' (gauge_value (gauge m))
                  (map (\<lambda>l. label_name l @ '':'' @ label_value l) (label m))) (metric message), Returned)"
  "kube_deployment_status_replicas_unavailable message kw =
     (map (\<lambda>m. GaugeCall ''kubernetes.deployment.replicas_unavailable'' (gauge_value (gauge m))
                  (map (\<lambda>l. label_name l @ '':'' @ label_value l) (label m))) (metric message), Returned)"
  "kube_deployment_status_replicas_updated message kw =
     (map (\<lambda>m. GaugeCall ''kubernetes.deployment.replicas_updated'' (gauge_value (gauge m))
                  (map (\<lambda>l. label_name l @ '':'' @ label_value l) (label m))) (metric message), Returned)"
  "kube_deployment_spec_replicas message kw =
     (map (\<lambda>m. GaugeCall ''kubernetes.deployment.replicas_desired'' (gauge_value (gauge m))
                  (map (\<lambda>l. label_name l @ '':'' @ label_value l) (label m))) (metric message), Returned)"
  unfolding kube_deployment_status_replicas_available_def
    kube_deployment_status_replicas_unavailable_def
    kube_deployment_status_replicas_updated_def kube_deployment_spec_replicas_def Let_def
  by (rule for_each_emits, rule refl)+

text \<open>
  C7. For the four deployment families, each sample gives exactly one gauge of the
  family's metric name with the sample's gauge value, tagged with one
  \<^verbatim>\<open>name:value\<close> string per label of the sample, in the order of the labels.
\<close>

theorem deployment_tags_are_all_labels:
  assumes "(n, g) \<in> set [(''kube_deployment_status_replicas_available'', ''kubernetes.deployment.replicas_available''),
                          (''kube_deployment_status_replicas_unavailable'', ''kubernetes.deployment.replicas_unavailable''),
                          (''kube_deployment_status_replicas_updated'', ''kubernetes.deployment.replicas_updated''),
                          (''kube_deployment_spec_replicas'', ''kubernetes.deployment.replicas_desired'')]"
      and "name message = n"
  shows "process interp message kw =
           (map (\<lambda>m. GaugeCall g (gauge_value (gauge m))
                        (map (\<lambda>l. label_name l @ '':'' @ label_value l) (label m)))
                (metric message),
            Returned)"
proof -
  from assms(1) have
    "n = ''kube_deployment_status_replicas_available'' \<and> g = ''kubernetes.deployment.replicas_available'' \<or>
     n = ''kube_deployment_status_replicas_unavailable'' \<and> g = ''kubernetes.deployment.replicas_unavailable'' \<or>
     n = ''kube_deployment_status_replicas_updated'' \<and> g = ''kubernetes.deployment.replicas_updated'' \<or>
     n = ''kube_deployment_spec_replicas'' \<and> g = ''kubernetes.deployment.replicas_desired''"
    by (simp only: list.set insert_iff empty_iff prod.inject simp_thms)
  then show ?thesis
  proof (elim disjE conjE)
    assume "n = ''kube_deployment_status_replicas_available''" "g = ''kubernetes.deployment.replicas_available''"
    with assms(2) show ?thesis
      by (simp only: process_handler [OF _ getattr_handlers(7) deployment_handlers(1)])
  next
    assume "n = ''kube_deployment_status_replicas_unavailable''" "g = ''kubernetes.deployment.replicas_unavailable''"
    with assms(2) show ?thesis
      by (simp only: process_handler [OF _ getattr_handlers(8) deployment_handlers(2)])
  next
    assume "n = ''kube_deployment_status_replicas_updated''" "g = ''kubernetes.deployment.replicas_updated''"
    with assms(2) show ?thesis
      by (simp only: process_handler [OF _ getattr_handlers(9) deployment_handlers(3)])
  next
    assume "n = ''kube_deployment_spec_replicas''" "g = ''kubernetes.deployment.replicas_desired''"
    with assms(2) show ?thesis
      by (simp only: process_handler [OF _ getattr_handlers(10) deployment_handlers(4)])
  qed
qed

theorem deployment_tags_are_all_labels_witness:
  "process [''__class__'', ''__dict__'', ''__doc__'', ''__module__'']
      \<lparr>name = ''kube_deployment_spec_replicas'',
            metric = [\<lparr>label = [\<lparr>label_name = ''namespace'', label_value = ''default''\<rparr>,
                                \<lparr>label_name = ''deployment'', label_value = ''web''\<rparr>,
                                \<lparr>label_name = ''namespace'', label_value = ''other''\<rparr>],
                       gauge = \<lparr>gauge_value = 3\<rparr>\<rparr>,
                      \<lparr>label = [], gauge = \<lparr>gauge_value = 0\<rparr>\<rparr>]\<rparr> []
   = ([GaugeCall ''kubernetes.deployment.replicas_desired'' 3
         [''namespace:default'', ''deployment:web'', ''namespace:other''],
       GaugeCall ''kubernetes.deployment.replicas_desired'' 0 []], Returned)"
  using deployment_tags_are_all_labels
    [where interp = "[''__class__'', ''__dict__'', ''__doc__'', ''__module__'']",
     of "''kube_deployment_spec_replicas''" "''kubernetes.deployment.replicas_desired''"
        "\<lparr>name = ''kube_deployment_spec_replicas'',
            metric = [\<lparr>label = [\<lparr>label_name = ''namespace'', label_value = ''default''\<rparr>,
                                \<lparr>label_name = ''deployment'', label_value = ''web''\<rparr>,
                                \<lparr>label_name = ''namespace'', label_value = ''other''\<rparr>],
                       gauge = \<lparr>gauge_value = 3\<rparr>\<rparr>,
                      \<lparr>label = [], gauge = \<lparr>gauge_value = 0\<rparr>\<rparr>]\<rparr>" "[]"]
  by simp

subsection \<open>The pod-readiness family\<close>





text \<open>
  C9. For the pod-readiness family, in every context that configures no allow-list (no
  \<^verbatim>\<open>instance\<close>, or an \<^verbatim>\<open>instance\<close> dictionary without \<^verbatim>\<open>status_ready_for_pods\<close> or with
  \<^verbatim>\<open>None\<close> under it), and for any samples, the handler returns with one debug log line as
  its only effect, no gauge and no service check, and so does \<^verbatim>\<open>process\<close>.
\<close>

theorem pod_ready_without_allow_list:
  assumes "name message = ''kube_pod_status_ready''"
      and "map_of kw ''instance'' = None \<or>
           (\<exists>d. map_of kw ''instance'' = Some (PyDict d) \<and>
                (map_of d ''status_ready_for_pods'' = None \<or>
                 map_of d ''status_ready_for_pods'' = Some PyNone))"
  shows "kube_pod_status_ready message kw =
           ([LogDebug ''no pods configured, kube_pod_status_ready has nothing to do, returning...''],
            Returned)
         \<and> process interp message kw = kube_pod_status_ready message kw"
proof -
  from assms(2) have "kwargs_get_pods kw = Inr PyNone"
    by (auto simp: kwargs_get_pods_def)
  then have h: "kube_pod_status_ready message kw =
           ([LogDebug ''no pods configured, kube_pod_status_ready has nothing to do, returning...''],
            Returned)"
    by (simp add: kube_pod_status_ready_def emit_def)
  from assms(1) h have "process interp message kw =
           ([LogDebug ''no pods configured, kube_pod_status_ready has nothing to do, returning...''],
            Returned)"
    by (rule process_handler [OF _ getattr_handlers(13)])
  with h show ?thesis by simp
qed

theorem pod_ready_without_allow_list_witness:
  "process [''__class__'', ''__dict__'', ''__doc__'', ''__module__'']
      \<lparr>name = ''kube_pod_status_ready'',
            metric = [\<lparr>label = [\<lparr>label_name = ''pod'', label_value = ''pod-a''\<rparr>,
                                \<lparr>label_name = ''condition'', label_value = ''true''\<rparr>],
                       gauge = \<lparr>gauge_value = 1\<rparr>\<rparr>]\<rparr>
           [(''instance'', PyDict [(''tags'', PyList [])])]
   = ([LogDebug ''no pods configured, kube_pod_status_ready has nothing to do, returning...''],
      Returned)"
  using pod_ready_without_allow_list
    [where interp = "[''__class__'', ''__dict__'', ''__doc__'', ''__module__'']",
     of "\<lparr>name = ''kube_pod_status_ready'',
            metric = [\<lparr>label = [\<lparr>label_name = ''pod'', label_value = ''pod-a''\<rparr>,
                                \<lparr>label_name = ''condition'', label_value = ''true''\<rparr>],
                       gauge = \<lparr>gauge_value = 1\<rparr>\<rparr>]\<rparr>"
        "[(''instance'', PyDict [(''tags'', PyList [])])]"]
  by simp

lemma branch_shapes:
  "seq (if asserted nm val ''true'' then emit a else skip)
       (if asserted nm val ''false'' then emit b
        else if asserted nm val ''unknown'' then emit c else skip)
   = (if asserted nm val ''true'' then emit a
      else if asserted nm val ''false'' then emit b
      else if asserted nm val ''unknown'' then emit c else skip)"
  by (auto simp: asserted_def emit_def skip_def)

text \<open>Counting the events of one kind: a loop whose body gives at most one gives at most one per element.\<close>

lemma service_checks_seq:
  "length (filter P (fst (seq r1 r2))) \<le> length (filter P (fst r1)) + length (filter P (fst r2))"
  by (cases r1; cases r2) (simp add: seq_def split: outcome.splits)

lemma service_checks_for_each:
  "(\<And>x. x \<in> set xs \<Longrightarrow> length (filter P (fst (body x))) \<le> 1) \<Longrightarrow>
   length (filter P (fst (for_each body xs))) \<le> length xs"
proof (induction xs)
  case Nil
  then show ?case by (simp add: skip_def)
next
  case (Cons x xs)
  have "length (filter P (fst (for_each body (x # xs))))
          \<le> length (filter P (fst (body x))) + length (filter P (fst (for_each body xs)))"
    by (simp only: for_each.simps service_checks_seq)
  also have "\<dots> \<le> 1 + length xs"
  proof (rule add_mono)
    show "length (filter P (fst (body x))) \<le> 1" by (rule Cons.prems) simp
    show "length (filter P (fst (for_each body xs))) \<le> length xs"
      by (rule Cons.IH) (rule Cons.prems, simp)
  qed
  finally show ?case by simp
qed

lemma elif_chain_service_checks:
  "length (filter (\<lambda>e. case e of ServiceCheck _ _ _ \<Rightarrow> True | _ \<Rightarrow> False)
     (fst (kube_pod_status_ready_elif_chain message kw))) \<le> length (metric message)"
proof (cases "kwargs_get_pods kw")
  case (Inl e)
  then show ?thesis by (simp add: kube_pod_status_ready_elif_chain_def raise_def)
next
  case (Inr v)
  show ?thesis
  proof (cases "v = PyNone")
    case True
    with Inr show ?thesis by (simp add: kube_pod_status_ready_elif_chain_def emit_def)
  next
    case False
    with Inr have "kube_pod_status_ready_elif_chain message kw =
      for_each (\<lambda>m.
            let pod_name = extract_label_value ''pod'' (label m) in
            case py_in pod_name v of
              Inl e \<Rightarrow> raise e
            | Inr False \<Rightarrow> skip
            | Inr True \<Rightarrow>
                (case eval_metric_condition m of (nm, val) \<Rightarrow>
                 let tags = [''namespace:'' @ format_str (extract_label_value ''namespace'' (label m)),
                             ''pod:'' @ format_str pod_name] in
                 if asserted nm val ''true''
                 then emit (ServiceCheck ''kube_pod_status_ready'' OK tags)
                 else if asserted nm val ''false''
                 then emit (ServiceCheck ''kube_pod_status_ready'' CRITICAL tags)
                 else if asserted nm val ''unknown''
                 then emit (ServiceCheck ''kube_pod_status_ready'' UNKNOWN tags) else skip))
          (metric message)"
      by (cases v) (simp_all add: kube_pod_status_ready_elif_chain_def Let_def)
    then show ?thesis
      by (simp only:, intro service_checks_for_each)
         (simp add: emit_def skip_def raise_def Let_def
            split: sum.splits bool.splits prod.splits)
  qed
qed

text \<open>
  C10. The pod-readiness handler, with its \<^verbatim>\<open>if\<close> followed by \<^verbatim>\<open>if\<close>/\<^verbatim>\<open>elif\<close>, has
  for every family and every context the same events and the same outcome as the handler
  with the symmetric \<^verbatim>\<open>if\<close>/\<^verbatim>\<open>elif\<close>/\<^verbatim>\<open>elif\<close> chain; a family of one sample gives at
  most one service check, and any family at most as many service checks as it has samples.
\<close>

theorem pod_ready_branch_shapes_coincide:
  "kube_pod_status_ready message kw = kube_pod_status_ready_elif_chain message kw
   \<and> length (filter (\<lambda>e. case e of ServiceCheck _ _ _ \<Rightarrow> True | _ \<Rightarrow> False)
         (fst (kube_pod_status_ready \<lparr>name = n, metric = [m]\<rparr> kw))) \<le> 1
   \<and> length (filter (\<lambda>e. case e of ServiceCheck _ _ _ \<Rightarrow> True | _ \<Rightarrow> False)
         (fst (kube_pod_status_ready message kw))) \<le> length (metric message)"
proof -
  have same: "kube_pod_status_ready msg k = kube_pod_status_ready_elif_chain msg k" for msg k
    by (simp add: kube_pod_status_ready_def kube_pod_status_ready_elif_chain_def branch_shapes
          cong: sum.case_cong bool.case_cong pyval.case_cong prod.case_cong)
  have "length (filter (\<lambda>e. case e of ServiceCheck _ _ _ \<Rightarrow> True | _ \<Rightarrow> False)
         (fst (kube_pod_status_ready_elif_chain \<lparr>name = n, metric = [m]\<rparr> kw)))
          \<le> length (metric \<lparr>name = n, metric = [m]\<rparr>)"
    by (rule elif_chain_service_checks)
  with same elif_chain_service_checks [of message kw] show ?thesis by simp
qed

theorem pod_ready_branch_shapes_coincide_witness:
  "kube_pod_status_ready_elif_chain
     \<lparr>name = ''kube_pod_status_ready'',
      metric = [\<lparr>label = [\<lparr>label_name = ''namespace'', label_value = ''default''\<rparr>,
                          \<lparr>label_name = ''pod'', label_value = ''pod-a''\<rparr>,
                          \<lparr>label_name = ''condition'', label_value = ''false''\<rparr>],
                 gauge = \<lparr>gauge_value = 1\<rparr>\<rparr>]\<rparr>
     [(''instance'', PyDict [(''status_ready_for_pods'', PyList [PyStr ''pod-a''])])]
   = ([ServiceCheck ''kube_pod_status_ready'' CRITICAL [''namespace:default'', ''pod:pod-a'']],
      Returned)"
  using pod_ready_branch_shapes_coincide
    [of "\<lparr>name = ''kube_pod_status_ready'',
          metric = [\<lparr>label = [\<lparr>label_name = ''namespace'', label_value = ''default''\<rparr>,
                              \<lparr>label_name = ''pod'', label_value = ''pod-a''\<rparr>,
                              \<lparr>label_name = ''condition'', label_value = ''false''\<rparr>],
                     gauge = \<lparr>gauge_value = 1\<rparr>\<rparr>]\<rparr>"
        "[(''instance'', PyDict [(''status_ready_for_pods'', PyList [PyStr ''pod-a''])])]"]
  by (simp add: kube_pod_status_ready_def kwargs_get_pods_def eval_metric_condition_def
        asserted_def emit_def skip_def)

end
